theory Spec2Isabelle
  imports Main "HOL-Library.Multiset" "HOL-Library.AList"
begin

section \<open>The Monster group descriptor (monster\_group.py)\<close>

text \<open>
  Python integers are unbounded, so they are \<^typ>\<open>int\<close>. A dict is the list of its
  items in insertion order, which is the order \<open>items()\<close> iterates in; a dict display
  with distinct keys is the list of its entries as written.
\<close>

type_synonym int_dict = "(int \<times> int) list"

text \<open>
  An instance carries the three attributes that \<open>__init__\<close> assigns. Every method is
  written in state-passing form: it takes the instance and returns its result together
  with the instance as the method leaves it.
\<close>

record MonsterGroup =
  generators :: "unit option"
  name_attr :: string
  symbol_attr :: string

definition ORDER :: int where
  "ORDER = 808017424794512875886459904961710757005754368000000000"

definition MonsterGroup_init :: MonsterGroup where
  "MonsterGroup_init = \<lparr>generators = None, name_attr = ''Monster'', symbol_attr = ''M''\<rparr>"

definition order :: "MonsterGroup \<Rightarrow> int \<times> MonsterGroup" where
  "order self = (ORDER, self)"

definition name :: "MonsterGroup \<Rightarrow> string \<times> MonsterGroup" where
  "name self = (name_attr self, self)"

definition symbol :: "MonsterGroup \<Rightarrow> string \<times> MonsterGroup" where
  "symbol self = (symbol_attr self, self)"

definition is_sporadic :: "MonsterGroup \<Rightarrow> bool \<times> MonsterGroup" where
  "is_sporadic self = (True, self)"

definition is_simple :: "MonsterGroup \<Rightarrow> bool \<times> MonsterGroup" where
  "is_simple self = (True, self)"

definition factorization_table :: int_dict where
  "factorization_table =
     [(2, 46), (3, 20), (5, 9), (7, 6), (11, 2), (13, 3), (17, 1), (19, 1),
      (23, 1), (29, 1), (31, 1), (41, 1), (47, 1), (59, 1), (71, 1)]"

definition get_factorization :: "MonsterGroup \<Rightarrow> int_dict \<times> MonsterGroup" where
  "get_factorization self = (factorization_table, self)"

text \<open>
  \<open>prime ** power\<close> on two integers is an exact integer when the exponent is not
  negative. With a negative exponent Python leaves the integers (the result is a float,
  or ZeroDivisionError for base 0), which is \<open>None\<close> here.
\<close>

definition int_pow :: "int \<Rightarrow> int \<Rightarrow> int option" where
  "int_pow b e = (if 0 \<le> e then Some (b ^ nat e) else None)"

text \<open>The loop of \<open>verify_order\<close>: the accumulator is multiplied by each prime power.\<close>

fun calculated_order :: "int_dict \<Rightarrow> int \<Rightarrow> int option" where
  "calculated_order [] acc = Some acc"
| "calculated_order ((prime, power') # items) acc =
     (case int_pow prime power' of
        None \<Rightarrow> None
      | Some q \<Rightarrow> calculated_order items (acc * q))"

definition verify_order :: "MonsterGroup \<Rightarrow> bool \<times> MonsterGroup" where
  "verify_order self =
     (let (factorization, self1) = get_factorization self
      in (calculated_order factorization 1 = Some ORDER, self1))"

text \<open>
  A Python \<open>str\<close> is modelled by the bytes of its UTF-8 encoding, so the multiplication
  sign U+00D7 is two bytes.
\<close>

definition times_sign :: string where
  "times_sign = [CHR 0xC3, CHR 0x97]"

definition get_maximal_subgroups_info :: "MonsterGroup \<Rightarrow> string list \<times> MonsterGroup" where
  "get_maximal_subgroups_info self =
     ([''2^1+24.Co1 (Baby Monster normalizer)'',
       ''2^2+11+22.(M24 '' @ times_sign @ '' S3)'',
       ''3^1+12.2.Suz.2'',
       ''2^5+10+20.(S3 '' @ times_sign @ '' L5(2))'',
       ''5^1+6.2.J2.4'',
       ''7^1+4.(3 '' @ times_sign @ '' 2S7)'',
       ''11^1+2.(5 '' @ times_sign @ '' 2S5)'',
       ''13^1+2.(3 '' @ times_sign @ '' 4S4)'',
       ''(D10 '' @ times_sign @ '' HN).2'',
       ''2^10+16.O10^+(2)''], self)"

definition get_conjugacy_classes_count :: "MonsterGroup \<Rightarrow> int \<times> MonsterGroup" where
  "get_conjugacy_classes_count self = (194, self)"

text \<open>
  The values of the character table dict have several Python types; the last element of
  the coefficient list is the \<open>Ellipsis\<close> object, written \<open>...\<close> in the source.
\<close>

datatype pyval = PyInt int | PyBool bool | PyList "pyval list" | PyEllipsis

definition get_character_table_info ::
  "MonsterGroup \<Rightarrow> (string \<times> pyval) list \<times> MonsterGroup" where
  "get_character_table_info self =
     ([(''irreducible_representations'', PyInt 194),
       (''smallest_faithful_representation'', PyInt 196883),
       (''moonshine_connection'', PyBool True),
       (''j_invariant_coefficients'',
          PyList [PyInt 196884, PyInt 21493760, PyInt 864299970, PyEllipsis])], self)"

subsection \<open>Elements\<close>

record MonsterElement =
  element_id :: string
  group :: MonsterGroup

text \<open>
  The constructor's argument is \<open>Optional[str]\<close>; \<open>element_id or "e"\<close> replaces both
  \<open>None\<close> and the empty string, the two falsy values of that type.
\<close>

definition MonsterElement_init :: "string option \<Rightarrow> MonsterElement" where
  "MonsterElement_init arg =
     \<lparr>element_id = (case arg of None \<Rightarrow> ''e'' | Some s \<Rightarrow> if s = [] then ''e'' else s),
      group = MonsterGroup_init\<rparr>"

definition is_identity :: "MonsterElement \<Rightarrow> bool" where
  "is_identity self = (element_id self = ''e'')"

text \<open>
  \<open>MonsterElement.order\<close> and \<open>MonsterElement.conjugacy_class\<close> return
  \<open>Optional\<close> values: \<open>None\<close> is Python's \<open>None\<close>. Neither method has a
  \<open>raise\<close>, so there is no error branch.
\<close>

definition element_order :: "MonsterElement \<Rightarrow> int option" where
  "element_order self = (if is_identity self then Some 1 else None)"

definition conjugacy_class :: "MonsterElement \<Rightarrow> string option" where
  "conjugacy_class self = (if is_identity self then Some ''1A'' else None)"

subsection \<open>Dict objects in a store\<close>

text \<open>
  To speak about mutation of a returned dict, objects live in a store and a method
  returns a reference. The store is the list of the dict objects allocated so far and a
  reference is an index into it. Evaluating a dict display allocates a new object.
\<close>

type_synonym ref = nat
type_synonym store = "int_dict list"

definition alloc :: "int_dict \<Rightarrow> store \<Rightarrow> ref \<times> store" where
  "alloc d h = (length h, h @ [d])"

definition deref :: "store \<Rightarrow> ref \<Rightarrow> int_dict option" where
  "deref h r = (if r < length h then Some (h ! r) else None)"

definition get_factorization_ref :: "MonsterGroup \<Rightarrow> store \<Rightarrow> ref \<times> MonsterGroup \<times> store" where
  "get_factorization_ref self h =
     (let (d, self1) = get_factorization self; (r, h1) = alloc d h in (r, self1, h1))"

definition verify_order_ref :: "MonsterGroup \<Rightarrow> store \<Rightarrow> bool option \<times> MonsterGroup \<times> store" where
  "verify_order_ref self h =
     (let (r, self1, h1) = get_factorization_ref self h
      in (map_option (\<lambda>factorization. calculated_order factorization 1 = Some ORDER)
            (deref h1 r), self1, h1))"

text \<open>
  What a caller can do to a dict it holds: \<open>d[k] = v\<close> (an existing key keeps its
  place, a new one goes last), \<open>del d[k]\<close> (KeyError leaves the dict as it was) and
  \<open>d.clear()\<close>.
\<close>

datatype dict_op = SetItem int int | DelItem int | Clear

fun apply_dict_op :: "dict_op \<Rightarrow> int_dict \<Rightarrow> int_dict" where
  "apply_dict_op (SetItem k v) d = AList.update k v d"
| "apply_dict_op (DelItem k) d = AList.delete k d"
| "apply_dict_op Clear d = []"

definition mutate :: "ref \<Rightarrow> dict_op \<Rightarrow> store \<Rightarrow> store" where
  "mutate r op h = (if r < length h then h[r := apply_dict_op op (h ! r)] else h)"

section \<open>Properties\<close>

lemma calculated_order_prod:
  "\<forall>(p, e) \<in> set items. 0 \<le> e \<Longrightarrow>
   calculated_order items acc = Some (acc * prod_list (map (\<lambda>(p, e). p ^ nat e) items))"
  by (induction items arbitrary: acc) (auto simp: int_pow_def mult.assoc)

lemma factorization_table_product:
  "prod_list (map (\<lambda>(p, e). p ^ nat e) factorization_table) = ORDER"
  by (simp add: factorization_table_def ORDER_def)

lemma calculated_order_perm:
  assumes "mset items = mset items'" "\<forall>(p, e) \<in> set items'. 0 \<le> e"
  shows "calculated_order items acc = calculated_order items' acc"
proof -
  from assms(1) have s: "set items = set items'" by (rule mset_eq_setD)
  with assms(2) have nn: "\<forall>(p, e) \<in> set items. 0 \<le> e" by simp
  have "prod_list (map (\<lambda>(p, e). p ^ nat e) items) = prod_mset (image_mset (\<lambda>(p, e). p ^ nat e) (mset items))"
    by (simp add: prod_mset_prod_list [symmetric])
  also have "\<dots> = prod_list (map (\<lambda>(p, e). p ^ nat e) items')"
    using assms(1) by (simp add: prod_mset_prod_list [symmetric])
  finally show ?thesis
    using calculated_order_prod [OF nn] calculated_order_prod [OF assms(2)] by simp
qed

lemma factorization_table_nonneg: "\<forall>(p, e) \<in> set factorization_table. 0 \<le> e"
  by (simp add: factorization_table_def)

text \<open>
  Claim C1. \<open>verify_order\<close> multiplies, in exact integer arithmetic, the prime powers of
  all 15 entries of the factorization table; the product is the \<open>ORDER\<close> literal, so the
  method returns \<open>True\<close>, and every reordering of the table's entries gives the same
  product.
\<close>

theorem verify_order_true:
  "fst (verify_order self) = True
   \<and> length (fst (get_factorization self)) = 15
   \<and> calculated_order (fst (get_factorization self)) 1
       = Some 808017424794512875886459904961710757005754368000000000
   \<and> (\<forall>items. mset items = mset (fst (get_factorization self))
         \<longrightarrow> calculated_order items 1 = Some ORDER)"
proof -
  have c: "calculated_order factorization_table 1 = Some ORDER"
    using calculated_order_prod [OF factorization_table_nonneg, of 1]
    by (simp add: factorization_table_product)
  have p: "calculated_order items 1 = Some ORDER" if "mset items = mset factorization_table" for items
    using calculated_order_perm [OF that factorization_table_nonneg, of 1] c by simp
  have l: "length factorization_table = 15" by (simp add: factorization_table_def)
  show ?thesis
    using c p l by (simp add: verify_order_def get_factorization_def ORDER_def)
qed

theorem verify_order_true_witness:
  "mset (rev factorization_table) = mset (fst (get_factorization MonsterGroup_init))
   \<and> calculated_order (rev factorization_table) 1 = Some ORDER"
  using verify_order_true [of MonsterGroup_init]
  by (simp add: get_factorization_def)

text \<open>
  Claim C2. The keys of \<open>get_factorization\<close> are exactly the 15 primes from 2 to 71, each
  once; every exponent is positive; the exponents of 2, 3, 5 and 7 are 46, 20, 9 and 6.
\<close>

theorem get_factorization_keys:
  "set (map fst (fst (get_factorization self))) = {2, 3, 5, 7, 11, 13, 17, 19, 23, 29, 31, 41, 47, 59, 71}
   \<and> distinct (map fst (fst (get_factorization self)))
   \<and> length (fst (get_factorization self)) = 15
   \<and> (\<forall>(p, e) \<in> set (fst (get_factorization self)). 0 < e)
   \<and> map_of (fst (get_factorization self)) 2 = Some 46
   \<and> map_of (fst (get_factorization self)) 3 = Some 20
   \<and> map_of (fst (get_factorization self)) 5 = Some 9
   \<and> map_of (fst (get_factorization self)) 7 = Some 6"
  by (simp add: get_factorization_def factorization_table_def)

theorem get_factorization_keys_witness:
  "(13, 3) \<in> set (fst (get_factorization MonsterGroup_init)) \<and> (0::int) < 3"
  using get_factorization_keys [of MonsterGroup_init]
  by (simp add: get_factorization_def factorization_table_def)

text \<open>
  Claim C5 says that the character table record has exactly three fields. The dict that
  \<open>get_character_table_info\<close> returns has a fourth key.
\<close>

theorem character_table_exactly_three_fields_counterexample:
  "set (map fst (fst (get_character_table_info MonsterGroup_init)))
     \<noteq> {''irreducible_representations'', ''smallest_faithful_representation'',
         ''moonshine_connection''}"
proof
  assume "set (map fst (fst (get_character_table_info MonsterGroup_init)))
     = {''irreducible_representations'', ''smallest_faithful_representation'',
         ''moonshine_connection''}"
  moreover have "''j_invariant_coefficients''
      \<in> set (map fst (fst (get_character_table_info MonsterGroup_init)))"
    by (simp add: get_character_table_info_def)
  ultimately have "''j_invariant_coefficients''
      \<in> {''irreducible_representations'', ''smallest_faithful_representation'',
         ''moonshine_connection''}"
    by simp
  then show False by simp
qed

text \<open>
  Claim C5, amended. \<open>get_character_table_info\<close> returns a dict with four keys: the
  three of the claim, with the values 194, 196883 and \<open>True\<close>, and
  \<open>j_invariant_coefficients\<close>, a list of three coefficients followed by \<open>Ellipsis\<close>;
  \<open>get_conjugacy_classes_count\<close> returns 194.
\<close>

theorem character_table_info_fields:
  "map fst (fst (get_character_table_info self))
     = [''irreducible_representations'', ''smallest_faithful_representation'',
        ''moonshine_connection'', ''j_invariant_coefficients'']
   \<and> map_of (fst (get_character_table_info self)) ''irreducible_representations'' = Some (PyInt 194)
   \<and> map_of (fst (get_character_table_info self)) ''smallest_faithful_representation''
        = Some (PyInt 196883)
   \<and> map_of (fst (get_character_table_info self)) ''moonshine_connection'' = Some (PyBool True)
   \<and> map_of (fst (get_character_table_info self)) ''j_invariant_coefficients''
        = Some (PyList [PyInt 196884, PyInt 21493760, PyInt 864299970, PyEllipsis])
   \<and> fst (get_conjugacy_classes_count self) = 194"
  by (simp add: get_character_table_info_def get_conjugacy_classes_count_def)

text \<open>
  Claim C6. An element built from an absent or empty identifier stores \<open>"e"\<close>, any other
  identifier is stored as given; \<open>is_identity\<close> holds iff the stored identifier is
  \<open>"e"\<close>; the identity has order 1 and class \<open>"1A"\<close>; for any other element both
  queries return \<open>None\<close>, which is not the integer zero, and no query can raise.
\<close>

theorem element_identity_cases:
  "element_id (MonsterElement_init arg)
     = (case arg of None \<Rightarrow> ''e'' | Some s \<Rightarrow> if s = [] then ''e'' else s)
   \<and> (is_identity (MonsterElement_init arg) \<longleftrightarrow> element_id (MonsterElement_init arg) = ''e'')
   \<and> (is_identity (MonsterElement_init arg) \<longrightarrow>
        element_order (MonsterElement_init arg) = Some 1
        \<and> conjugacy_class (MonsterElement_init arg) = Some ''1A'')
   \<and> (\<not> is_identity (MonsterElement_init arg) \<longrightarrow>
        element_order (MonsterElement_init arg) = None
        \<and> conjugacy_class (MonsterElement_init arg) = None
        \<and> element_order (MonsterElement_init arg) \<noteq> Some 0)"
  by (simp add: MonsterElement_init_def is_identity_def element_order_def conjugacy_class_def)

theorem element_identity_cases_witness:
  "is_identity (MonsterElement_init None) \<and> is_identity (MonsterElement_init (Some ''''))
   \<and> is_identity (MonsterElement_init (Some ''e''))
   \<and> element_order (MonsterElement_init None) = Some 1
   \<and> conjugacy_class (MonsterElement_init (Some '''')) = Some ''1A''
   \<and> \<not> is_identity (MonsterElement_init (Some ''g1''))
   \<and> element_order (MonsterElement_init (Some ''g1'')) = None
   \<and> conjugacy_class (MonsterElement_init (Some ''g1'')) = None"
  using element_identity_cases [of None] element_identity_cases [of "Some ''''"]
    element_identity_cases [of "Some ''e''"] element_identity_cases [of "Some ''g1''"]
  by simp

text \<open>
  Claim C9. Each of the ten query methods leaves the instance as it found it, and a second
  call on the instance it leaves returns what the first call returned. This holds for every
  value of the instance's attributes.
\<close>

theorem queries_idempotent:
  "snd (order self) = self \<and> fst (order (snd (order self))) = fst (order self)
   \<and> snd (name self) = self \<and> fst (name (snd (name self))) = fst (name self)
   \<and> snd (symbol self) = self \<and> fst (symbol (snd (symbol self))) = fst (symbol self)
   \<and> snd (is_sporadic self) = self
   \<and> fst (is_sporadic (snd (is_sporadic self))) = fst (is_sporadic self)
   \<and> snd (is_simple self) = self
   \<and> fst (is_simple (snd (is_simple self))) = fst (is_simple self)
   \<and> snd (get_factorization self) = self
   \<and> fst (get_factorization (snd (get_factorization self))) = fst (get_factorization self)
   \<and> snd (verify_order self) = self
   \<and> fst (verify_order (snd (verify_order self))) = fst (verify_order self)
   \<and> snd (get_maximal_subgroups_info self) = self
   \<and> fst (get_maximal_subgroups_info (snd (get_maximal_subgroups_info self)))
        = fst (get_maximal_subgroups_info self)
   \<and> snd (get_conjugacy_classes_count self) = self
   \<and> fst (get_conjugacy_classes_count (snd (get_conjugacy_classes_count self)))
        = fst (get_conjugacy_classes_count self)
   \<and> snd (get_character_table_info self) = self
   \<and> fst (get_character_table_info (snd (get_character_table_info self)))
        = fst (get_character_table_info self)"
  by (simp add: order_def name_def symbol_def is_sporadic_def is_simple_def
      get_factorization_def verify_order_def get_maximal_subgroups_info_def
      get_conjugacy_classes_count_def get_character_table_info_def)

lemma length_mutate: "length (mutate r op h) = length h"
  by (simp add: mutate_def)

lemma length_fold_mutate: "length (fold (mutate r) ops h) = length h"
  by (induction ops arbitrary: h) (simp_all add: length_mutate)

lemma deref_fold_mutate:
  "r < length h \<Longrightarrow>
   deref (fold (mutate r) ops h) q
     = (if q = r then Some (fold apply_dict_op ops (h ! r)) else deref h q)"
proof (induction ops arbitrary: h)
  case Nil
  then show ?case by (simp add: deref_def)
next
  case (Cons op ops)
  have "r < length (mutate r op h)" using Cons.prems by (simp add: length_mutate)
  from Cons.IH [OF this] show ?case
    using Cons.prems by (auto simp: mutate_def deref_def)
qed

lemma calculated_order_table: "calculated_order factorization_table 1 = Some ORDER"
  by (simp add: factorization_table_def ORDER_def int_pow_def)

text \<open>
  Claim C10. A dict returned by \<open>get_factorization\<close> is a new object: after any sequence
  of item assignments, deletions and clears on it (which do change that object), a later
  \<open>get_factorization\<close> on any instance returns a reference different from the mutated one,
  to the unchanged table, leaving all existing objects as they are, and a later
  \<open>verify_order\<close> returns \<open>True\<close>.
\<close>

theorem get_factorization_fresh:
  assumes "get_factorization_ref self h = (r, self1, h1)"
    and "h2 = fold (mutate r) ops h1"
  shows "deref h2 r = Some (fold apply_dict_op ops factorization_table)
   \<and> (case get_factorization_ref self' h2 of
        (r', self2, h3) \<Rightarrow>
          r' \<noteq> r \<and> deref h3 r' = Some factorization_table
          \<and> (\<forall>q < length h2. deref h3 q = deref h2 q))
   \<and> fst (verify_order_ref self' h2) = Some True
   \<and> fst (get_factorization self') = factorization_table"
proof -
  from assms(1) have r: "r = length h" and h1: "h1 = h @ [factorization_table]"
    by (auto simp: get_factorization_ref_def get_factorization_def alloc_def)
  have rl: "r < length h1" using r h1 by simp
  have l2: "length h2 = Suc (length h)" using assms(2) h1 by (simp add: length_fold_mutate)
  have a: "deref h2 r = Some (fold apply_dict_op ops factorization_table)"
    using deref_fold_mutate [OF rl, of ops r] assms(2) r h1 by simp
  have b: "case get_factorization_ref self' h2 of
        (r', self2, h3) \<Rightarrow>
          r' \<noteq> r \<and> deref h3 r' = Some factorization_table
          \<and> (\<forall>q < length h2. deref h3 q = deref h2 q)"
    using l2 r
    by (simp add: get_factorization_ref_def get_factorization_def alloc_def deref_def nth_append)
  have c: "fst (verify_order_ref self' h2) = Some True"
    by (simp add: verify_order_ref_def get_factorization_ref_def get_factorization_def
        alloc_def deref_def calculated_order_table)
  show ?thesis using a b c by (simp add: get_factorization_def)
qed

theorem get_factorization_fresh_witness:
  "get_factorization_ref MonsterGroup_init [] = (0, MonsterGroup_init, [factorization_table])
   \<and> deref (fold (mutate 0) [SetItem 2 0, DelItem 3, SetItem 4 1, Clear] [factorization_table]) 0
       = Some []
   \<and> fst (verify_order_ref MonsterGroup_init
            (fold (mutate 0) [SetItem 2 0, DelItem 3, SetItem 4 1, Clear] [factorization_table]))
       = Some True"
proof -
  have g: "get_factorization_ref MonsterGroup_init [] = (0, MonsterGroup_init, [factorization_table])"
    by (simp add: get_factorization_ref_def get_factorization_def alloc_def)
  show ?thesis
    using g get_factorization_fresh [OF g refl,
        of "[SetItem 2 0, DelItem 3, SetItem 4 1, Clear]" MonsterGroup_init]
    by simp
qed

end
